theory Spec2Isabelle
  imports Complex_Main "HOL-Library.Char_ord" "HOL-Library.List_Lexorder"
begin

section \<open>Building energy dashboard: data generator, filter, aggregates, device registry\<close>

text \<open>
  The program is \<^verbatim>\<open>src/streamlit_app.py\<close>: a Streamlit script that generates a
  synthetic table of per-room electrical readings, filters it by a date range, aggregates
  it per room and per floor, and keeps a small device registry in the session state.

  Conventions of the embedding:
  \<^item> a DataFrame is the list of its rows, in row order; a row is a record with one field
    per column;
  \<^item> Python floats are modelled as \<open>real\<close>;
  \<^item> a timestamp is the number of minutes since the start of day 0 of the proleptic
    Gregorian calendar (the ordinal of Python's \<^verbatim>\<open>datetime\<close>), a date is its ordinal;
  \<^item> \<^verbatim>\<open>np.random.uniform\<close> is a parameter \<open>uniform\<close> that takes the bounds and the
    generator state and returns the sample and the next state;
  \<^item> the session's \<^verbatim>\<open>devices\<close> dict is an association list in insertion order.
\<close>

subsection \<open>Dates and timestamps\<close>

definition is_leap :: "int \<Rightarrow> bool" where
  "is_leap y = (if y mod 400 = 0 then True else if y mod 100 = 0 then False else y mod 4 = 0)"

definition days_before_year :: "int \<Rightarrow> int" where
  "days_before_year y = (y - 1) * 365 + (y - 1) div 4 - (y - 1) div 100 + (y - 1) div 400"

definition days_before_month :: "int \<Rightarrow> int \<Rightarrow> int" where
  "days_before_month y m =
     [0, 31, 59, 90, 120, 151, 181, 212, 243, 273, 304, 334] ! nat (m - 1)
       + (if 2 < m \<and> is_leap y then 1 else 0)"

definition ymd2ord :: "int \<Rightarrow> int \<Rightarrow> int \<Rightarrow> int" where
  "ymd2ord y m d = days_before_year y + days_before_month y m + d"

text \<open>\<^verbatim>\<open>datetime(y, m, d, h, mi)\<close> as a minute count.\<close>

definition datetime :: "int \<Rightarrow> int \<Rightarrow> int \<Rightarrow> int \<Rightarrow> int \<Rightarrow> int" where
  "datetime y m d h mi = (ymd2ord y m d * 24 + h) * 60 + mi"

text \<open>\<^verbatim>\<open>date.hour\<close> and \<^verbatim>\<open>.dt.date\<close> of a timestamp.\<close>

definition hour :: "int \<Rightarrow> int" where
  "hour t = (t div 60) mod 24"

definition dt_date :: "int \<Rightarrow> int" where
  "dt_date t = t div 1440"

text \<open>\<^verbatim>\<open>pd.date_range(start, end, freq='T')\<close>: every minute from start to end, both
  included; empty when end is before start.\<close>

definition date_range :: "int \<Rightarrow> int \<Rightarrow> int list" where
  "date_range s e = [s..e]"

subsection \<open>The table of readings\<close>

text \<open>The columns \<^verbatim>\<open>floor\<close> and \<^verbatim>\<open>power\<close> are the fields \<open>floor_no\<close> and \<open>power_w\<close>.\<close>

record reading =
  timestamp :: int
  room_id :: string
  floor_no :: string
  voltage :: real
  current :: real
  power_w :: real
  energy_kwh :: real
  bill_taka :: real
  carbon_gco2 :: real
  status :: string

type_synonym 'g sampler = "real \<Rightarrow> real \<Rightarrow> 'g \<Rightarrow> real \<times> 'g"

text \<open>The body of the inner loop of \<^verbatim>\<open>generate_data\<close> (lines 24 to 32). The conditional
  expression of line 25 draws the current only inside the operating hours.\<close>

definition gen_reading :: "'g sampler \<Rightarrow> string \<Rightarrow> string \<Rightarrow> int \<Rightarrow> 'g \<Rightarrow> reading \<times> 'g" where
  "gen_reading uniform room fl date g =
     (let (voltage, g1) = uniform 220 240 g;
          (current, g2) = (if 8 \<le> hour date \<and> hour date < 20 then uniform 5 10 g1 else (0, g1));
          power = voltage * current;
          energy_kwh = power / 1000 / 60;
          bill_taka = energy_kwh * 5;
          carbon_gco2 = energy_kwh * 500;
          status = (if hour date < 8 \<or> 20 \<le> hour date then ''off'' else ''on'')
      in (\<lparr>timestamp = date, room_id = room, floor_no = fl, voltage = voltage,
            current = current, power_w = power, energy_kwh = energy_kwh,
            bill_taka = bill_taka, carbon_gco2 = carbon_gco2, status = status\<rparr>, g2))"

text \<open>\<^verbatim>\<open>for date in dates: ... data.append(...)\<close>\<close>

fun inner_loop ::
  "'g sampler \<Rightarrow> string \<Rightarrow> string \<Rightarrow> int list \<Rightarrow> reading list \<times> 'g \<Rightarrow> reading list \<times> 'g" where
  "inner_loop uniform room fl [] (data, g) = (data, g)"
| "inner_loop uniform room fl (date # dates) (data, g) =
     (let (row, g') = gen_reading uniform room fl date g
      in inner_loop uniform room fl dates (data @ [row], g'))"

text \<open>\<^verbatim>\<open>for room, floor in zip(rooms, floors): ...\<close>\<close>

fun outer_loop ::
  "'g sampler \<Rightarrow> (string \<times> string) list \<Rightarrow> int list \<Rightarrow> reading list \<times> 'g \<Rightarrow> reading list \<times> 'g" where
  "outer_loop uniform [] dates s = s"
| "outer_loop uniform ((room, fl) # rfs) dates s =
     outer_loop uniform rfs dates (inner_loop uniform room fl dates s)"

definition start_date :: int where
  "start_date = datetime 2025 11 1 0 0"

definition end_date :: int where
  "end_date = datetime 2025 11 23 23 59"

definition rooms :: "string list" where
  "rooms = [''101'', ''102'', ''103'', ''201'', ''202'', ''203'', ''301'', ''302'', ''303'']"

definition floors :: "string list" where
  "floors = replicate 3 ''1'' @ replicate 3 ''2'' @ replicate 3 ''3''"

definition generate_data :: "'g sampler \<Rightarrow> 'g \<Rightarrow> reading list" where
  "generate_data uniform g =
     fst (outer_loop uniform (zip rooms floors) (date_range start_date end_date) ([], g))"

subsection \<open>Date-range filter and building totals\<close>

text \<open>Line 56: the rows whose date lies between the two dates of the sidebar, in row
  order.\<close>

definition filtered_df :: "reading list \<Rightarrow> int \<Rightarrow> int \<Rightarrow> reading list" where
  "filtered_df data_df s e =
     filter (\<lambda>r. s \<le> dt_date (timestamp r) \<and> dt_date (timestamp r) \<le> e) data_df"

text \<open>Lines 66 to 68: \<^verbatim>\<open>Series.sum()\<close>, which is 0 on an empty column.\<close>

definition total_energy :: "reading list \<Rightarrow> real" where
  "total_energy df = sum_list (map energy_kwh df)"

definition total_bill :: "reading list \<Rightarrow> real" where
  "total_bill df = sum_list (map bill_taka df)"

definition total_carbon :: "reading list \<Rightarrow> real" where
  "total_carbon df = sum_list (map carbon_gco2 df)"

subsection \<open>Room tiles\<close>

record room_summary =
  rs_room_id :: string
  rs_power :: real
  rs_status :: string
  rs_energy_kwh :: real
  rs_bill_taka :: real
  rs_carbon_gco2 :: real

text \<open>Lines 75 to 81: \<^verbatim>\<open>groupby('room_id').agg(...).reset_index()\<close>. The groups are
  the distinct values of the key column in ascending order, each group holds its rows in
  row order. A group is never empty, so the mean divides by a positive count and
  \<^verbatim>\<open>last\<close> (the last row of the group) exists.\<close>

definition room_group :: "reading list \<Rightarrow> string \<Rightarrow> reading list" where
  "room_group df k = filter (\<lambda>r. room_id r = k) df"

definition room_summaries :: "reading list \<Rightarrow> room_summary list" where
  "room_summaries df =
     map (\<lambda>k. let grp = room_group df k in
            \<lparr>rs_room_id = k,
             rs_power = sum_list (map power_w grp) / real (length grp),
             rs_status = status (last grp),
             rs_energy_kwh = sum_list (map energy_kwh grp),
             rs_bill_taka = sum_list (map bill_taka grp),
             rs_carbon_gco2 = sum_list (map carbon_gco2 grp)\<rparr>)
         (sort (remdups (map room_id df)))"

subsection \<open>Floor trend\<close>

text \<open>Line 98: the rows of the selected floor. The select box returns \<^verbatim>\<open>None\<close> when the
  filtered table has no floor to offer, and no row's floor equals \<^verbatim>\<open>None\<close>.\<close>

definition floor_df :: "reading list \<Rightarrow> string option \<Rightarrow> reading list" where
  "floor_df df selected_floor = filter (\<lambda>r. Some (floor_no r) = selected_floor) df"

text \<open>Line 109: \<^verbatim>\<open>groupby('timestamp')['power'].sum().reset_index()\<close>.\<close>

definition floor_trend :: "reading list \<Rightarrow> (int \<times> real) list" where
  "floor_trend df =
     map (\<lambda>t. (t, sum_list (map power_w (filter (\<lambda>r. timestamp r = t) df))))
         (sort (remdups (map timestamp df)))"

subsection \<open>Device registry\<close>

datatype py_error = KeyError

type_synonym devices = "(string \<times> string) list"

text \<open>\<^verbatim>\<open>devices[k] = v\<close> on an insertion-ordered dict: an existing key keeps its place,
  a new key goes last.\<close>

definition dict_set :: "devices \<Rightarrow> string \<Rightarrow> string \<Rightarrow> devices" where
  "dict_set d k v =
     (if k \<in> set (map fst d) then map (\<lambda>kv. if fst kv = k then (k, v) else kv) d
      else d @ [(k, v)])"


text \<open>The two button handlers of the device view. A handler returns what the script run
  shows and the session's registry after it: \<open>Inr\<close> with the \<^verbatim>\<open>st.success\<close> messages,
  or \<open>Inl\<close> with the exception that ended the run.\<close>

definition add_update_device ::
  "devices \<Rightarrow> string \<Rightarrow> string \<Rightarrow> (py_error + string list) \<times> devices" where
  "add_update_device devs new_room new_device =
     (if new_room \<noteq> [] \<and> new_device \<noteq> []
      then (Inr [''Added/Updated device '' @ new_device @ '' for room '' @ new_room],
            dict_set devs new_room new_device)
      else (Inr [], devs))"







subsection \<open>Auxiliary notions for the statements\<close>

text \<open>The contract of \<^verbatim>\<open>np.random.uniform(low, high)\<close>: the sample lies between the
  bounds.\<close>

definition sampler_in_range :: "'g sampler \<Rightarrow> bool" where
  "sampler_in_range uniform =
     (\<forall>lo hi g. lo \<le> hi \<longrightarrow> lo \<le> fst (uniform lo hi g) \<and> fst (uniform lo hi g) \<le> hi)"

text \<open>A concrete sampler for the examples: the state counts the draws, the sample is
  the midpoint of the bounds.\<close>

definition midpoint_sampler :: "nat sampler" where
  "midpoint_sampler lo hi n = ((lo + hi) / 2, Suc n)"

text \<open>Row \<open>r\<close> is what the loop body makes for the room, floor and minute of \<open>k\<close>, from
  some generator state.\<close>

definition made_by :: "'g sampler \<Rightarrow> reading \<Rightarrow> (string \<times> string) \<times> int \<Rightarrow> bool" where
  "made_by uniform r k =
     (\<exists>g. r = fst (gen_reading uniform (fst (fst k)) (snd (fst k)) (snd k) g))"

text \<open>A small table for the examples: four readings of 1 November 2025 at 08:00 and
  08:01, out of row order, and one of 2 November.\<close>

definition example_df :: "reading list" where
  "example_df =
     [\<lparr>timestamp = 1064961121, room_id = ''101'', floor_no = ''1'', voltage = 230, current = 15 / 2,
       power_w = 1725, energy_kwh = 23 / 800, bill_taka = 23 / 160, carbon_gco2 = 115 / 8,
       status = ''on''\<rparr>,
      \<lparr>timestamp = 1064961120, room_id = ''101'', floor_no = ''1'', voltage = 230, current = 15 / 2,
       power_w = 1725, energy_kwh = 23 / 800, bill_taka = 23 / 160, carbon_gco2 = 115 / 8,
       status = ''on''\<rparr>,
      \<lparr>timestamp = 1064961120, room_id = ''102'', floor_no = ''1'', voltage = 230, current = 15 / 2,
       power_w = 1725, energy_kwh = 23 / 800, bill_taka = 23 / 160, carbon_gco2 = 115 / 8,
       status = ''on''\<rparr>,
      \<lparr>timestamp = 1064961120, room_id = ''201'', floor_no = ''2'', voltage = 230, current = 15 / 2,
       power_w = 1725, energy_kwh = 23 / 800, bill_taka = 23 / 160, carbon_gco2 = 115 / 8,
       status = ''on''\<rparr>,
      \<lparr>timestamp = 1064962560, room_id = ''103'', floor_no = ''1'', voltage = 230, current = 15 / 2,
       power_w = 1725, energy_kwh = 23 / 800, bill_taka = 23 / 160, carbon_gco2 = 115 / 8,
       status = ''on''\<rparr>]"

section \<open>The generator\<close>

subsection \<open>One reading\<close>

lemma gen_reading_keys:
  "timestamp (fst (gen_reading u room fl d g)) = d"
  "room_id (fst (gen_reading u room fl d g)) = room"
  "floor_no (fst (gen_reading u room fl d g)) = fl"
  by (simp_all add: gen_reading_def split_def Let_def)

lemma gen_reading_derived:
  "power_w (fst (gen_reading u room fl d g)) =
     voltage (fst (gen_reading u room fl d g)) * current (fst (gen_reading u room fl d g))"
  "energy_kwh (fst (gen_reading u room fl d g)) =
     power_w (fst (gen_reading u room fl d g)) / 1000 / 60"
  "bill_taka (fst (gen_reading u room fl d g)) = energy_kwh (fst (gen_reading u room fl d g)) * 5"
  "carbon_gco2 (fst (gen_reading u room fl d g)) =
     energy_kwh (fst (gen_reading u room fl d g)) * 500"
  by (simp_all add: gen_reading_def split_def Let_def)

lemma gen_reading_current:
  "current (fst (gen_reading u room fl d g)) =
     (if 8 \<le> hour d \<and> hour d < 20 then fst (u 5 10 (snd (u 220 240 g))) else 0)"
  by (simp add: gen_reading_def split_def Let_def)

lemma gen_reading_status:
  "status (fst (gen_reading u room fl d g)) =
     (if hour d < 8 \<or> 20 \<le> hour d then ''off'' else ''on'')"
  by (simp add: gen_reading_def split_def Let_def)

subsection \<open>Both iterations append one row per room and minute\<close>

lemma inner_loop_rows:
  "\<exists>rs. fst (inner_loop u room fl ds (data, g)) = data @ rs \<and>
        list_all2 (made_by u) rs (map (Pair (room, fl)) ds)"
proof (induction ds arbitrary: data g)
  case Nil
  then show ?case by simp
next
  case (Cons d ds)
  obtain row g' where row: "gen_reading u room fl d g = (row, g')"
    by (cases "gen_reading u room fl d g")
  from Cons.IH [of "data @ [row]" g'] obtain rs where
    rs: "fst (inner_loop u room fl ds (data @ [row], g')) = (data @ [row]) @ rs"
        "list_all2 (made_by u) rs (map (Pair (room, fl)) ds)"
    by blast
  have "made_by u row ((room, fl), d)"
    unfolding made_by_def using row by (metis fst_conv snd_conv)
  with rs row show ?case
    by (intro exI [of _ "row # rs"]) simp
qed

lemma outer_loop_rows:
  "\<exists>rs. fst (outer_loop u rfs ds (data, g)) = data @ rs \<and>
        list_all2 (made_by u) rs (List.product rfs ds)"
proof (induction rfs arbitrary: data g)
  case Nil
  then show ?case by simp
next
  case (Cons rf rfs)
  obtain room fl where rf: "rf = (room, fl)" by (cases rf)
  obtain data1 g1 where s1: "inner_loop u room fl ds (data, g) = (data1, g1)"
    by (cases "inner_loop u room fl ds (data, g)")
  from inner_loop_rows [of u room fl ds data g] s1 obtain rs1 where
    rs1: "data1 = data @ rs1" "list_all2 (made_by u) rs1 (map (Pair (room, fl)) ds)"
    by auto
  from Cons.IH [of data1 g1] obtain rs2 where
    rs2: "fst (outer_loop u rfs ds (data1, g1)) = data1 @ rs2"
         "list_all2 (made_by u) rs2 (List.product rfs ds)"
    by blast
  from rs1 rs2 have "list_all2 (made_by u) (rs1 @ rs2) (List.product (rf # rfs) ds)"
    by (simp add: rf list_all2_appendI)
  with rs1 rs2 s1 show ?case
    by (intro exI [of _ "rs1 @ rs2"]) (simp add: rf)
qed

lemma generate_data_rows:
  "list_all2 (made_by u) (generate_data u g)
     (List.product (zip rooms floors) (date_range start_date end_date))"
  using outer_loop_rows [of u "zip rooms floors" "date_range start_date end_date" "[]" g]
  by (simp add: generate_data_def)

subsection \<open>The fixed inputs and the rows of the table\<close>

lemma zip_rooms_floors:
  "zip rooms floors =
     [(''101'', ''1''), (''102'', ''1''), (''103'', ''1''),
      (''201'', ''2''), (''202'', ''2''), (''203'', ''2''),
      (''301'', ''3''), (''302'', ''3''), (''303'', ''3'')]"
  by (simp add: rooms_def floors_def numeral_3_eq_3)

lemma start_date_value: "start_date = 1064960640"
  by (simp add: start_date_def datetime_def ymd2ord_def days_before_year_def
      days_before_month_def is_leap_def)

lemma end_date_value: "end_date = 1064993759"
  by (simp add: end_date_def datetime_def ymd2ord_def days_before_year_def
      days_before_month_def is_leap_def)

lemma length_date_range: "length (date_range start_date end_date) = 33120"
  unfolding date_range_def length_upto by (simp add: start_date_value end_date_value)

lemma set_date_range: "set (date_range s e) = {s..e}"
  by (simp add: date_range_def)

lemma made_by_keys:
  assumes "made_by u r k"
  shows "((room_id r, floor_no r), timestamp r) = k"
  using assms by (auto simp: made_by_def gen_reading_keys)

lemma list_all2_map_eq:
  "list_all2 (\<lambda>x y. f x = y) xs ys \<Longrightarrow> map f xs = ys"
  by (induction rule: list_all2_induct) auto

lemma generate_data_keys:
  "map (\<lambda>r. ((room_id r, floor_no r), timestamp r)) (generate_data u g) =
     List.product (zip rooms floors) (date_range start_date end_date)"
  by (rule list_all2_map_eq)
     (rule list_all2_mono [OF generate_data_rows], erule made_by_keys)

lemma list_all2_left:
  "list_all2 P xs ys \<Longrightarrow> x \<in> set xs \<Longrightarrow> \<exists>y \<in> set ys. P x y"
  by (induction rule: list_all2_induct) auto

lemma list_all2_right:
  "list_all2 P xs ys \<Longrightarrow> y \<in> set ys \<Longrightarrow> \<exists>x \<in> set xs. P x y"
  by (induction rule: list_all2_induct) auto

lemma generate_data_origin:
  assumes "r \<in> set (generate_data u g)"
  shows "\<exists>k \<in> set (zip rooms floors) \<times> {start_date..end_date}. made_by u r k"
  using list_all2_left [OF generate_data_rows assms] by (simp add: set_date_range)

lemma generate_data_has:
  assumes "rf \<in> set (zip rooms floors)" "start_date \<le> d" "d \<le> end_date"
  shows "\<exists>r \<in> set (generate_data u g). made_by u r (rf, d)"
proof -
  have "(rf, d) \<in> set (List.product (zip rooms floors) (date_range start_date end_date))"
    using assms by (simp add: set_date_range)
  from list_all2_right [OF generate_data_rows this] show ?thesis .
qed

lemma length_generate_data: "length (generate_data u g) = 298080"
  using list_all2_lengthD [OF generate_data_rows [of u g]]
  by (simp add: length_date_range zip_rooms_floors)

subsection \<open>The example sampler\<close>

lemma midpoint_in_range: "sampler_in_range midpoint_sampler"
  by (simp add: sampler_in_range_def midpoint_sampler_def)

lemma midpoint_reading:
  "fst (gen_reading midpoint_sampler room fl d n) =
     \<lparr>timestamp = d, room_id = room, floor_no = fl, voltage = 230,
      current = (if 8 \<le> hour d \<and> hour d < 20 then 15 / 2 else 0),
      power_w = (if 8 \<le> hour d \<and> hour d < 20 then 1725 else 0),
      energy_kwh = (if 8 \<le> hour d \<and> hour d < 20 then 23 / 800 else 0),
      bill_taka = (if 8 \<le> hour d \<and> hour d < 20 then 23 / 160 else 0),
      carbon_gco2 = (if 8 \<le> hour d \<and> hour d < 20 then 115 / 8 else 0),
      status = (if hour d < 8 \<or> 20 \<le> hour d then ''off'' else ''on'')\<rparr>"
  by (simp add: gen_reading_def midpoint_sampler_def)

lemma midpoint_row_in_table:
  assumes "rf \<in> set (zip rooms floors)" "start_date \<le> d" "d \<le> end_date"
  shows "fst (gen_reading midpoint_sampler (fst rf) (snd rf) d 0) \<in> set (generate_data midpoint_sampler g)"
proof -
  from generate_data_has [OF assms, of midpoint_sampler g] obtain r where
    r: "r \<in> set (generate_data midpoint_sampler g)" "made_by midpoint_sampler r (rf, d)"
    by (rule bexE)
  from r(2) obtain n where n: "r = fst (gen_reading midpoint_sampler (fst rf) (snd rf) d n)"
    unfolding made_by_def fst_conv snd_conv by (rule exE)
  have "fst (gen_reading midpoint_sampler (fst rf) (snd rf) d n) =
        fst (gen_reading midpoint_sampler (fst rf) (snd rf) d 0)"
    unfolding midpoint_reading ..
  with n have eq: "r = fst (gen_reading midpoint_sampler (fst rf) (snd rf) d 0)"
    by (rule trans)
  from r(1) show ?thesis unfolding eq .
qed

section \<open>Claims about the generator\<close>

lemma product_fst:
  "map (\<lambda>k. (fst (fst k), snd k)) (List.product rfs ds) = List.product (map fst rfs) ds"
  by (induction rfs) (simp_all add: o_def)

lemma map_fst_zip_rooms: "map fst (zip rooms floors) = rooms"
  unfolding zip_rooms_floors by (simp add: rooms_def)

lemma product_rooms:
  "map (\<lambda>k. (fst (fst k), snd k)) (List.product (zip rooms floors) ds) = List.product rooms ds"
  unfolding product_fst map_fst_zip_rooms ..

lemma distinct_rooms: "distinct rooms"
  by (simp add: rooms_def)

lemma generate_data_room_minutes:
  "map (\<lambda>r. (room_id r, timestamp r)) (generate_data u g) =
     List.product rooms (date_range start_date end_date)"
proof -
  have "map (\<lambda>r. (room_id r, timestamp r)) (generate_data u g) =
        map (\<lambda>k. (fst (fst k), snd k))
          (map (\<lambda>r. ((room_id r, floor_no r), timestamp r)) (generate_data u g))"
    by (simp add: o_def)
  also have "\<dots> = List.product rooms (date_range start_date end_date)"
    unfolding generate_data_keys by (rule product_rooms)
  finally show ?thesis .
qed

text \<open>
  Claim C3. The window runs from 1 November 2025 00:00 to 23 November 2025 23:59, start
  before end, and there are 9 rooms. The (room, minute) pairs of the table's rows, in row
  order, are exactly the cross product of the rooms and the minutes of the window, each
  pair once. So the table has 9 * ((end - start) in minutes + 1) = 298080 rows, whatever
  the random draws are: two runs give the same row count.
\<close>

theorem generate_data_row_count:
  "map (\<lambda>r. (room_id r, timestamp r)) (generate_data uniform g) =
     List.product rooms (date_range start_date end_date)
   \<and> distinct (List.product rooms (date_range start_date end_date))
   \<and> start_date \<le> end_date
   \<and> length rooms = 9
   \<and> length (generate_data uniform g) = 9 * nat (end_date - start_date + 1)
   \<and> length (generate_data uniform g) = 298080
   \<and> length (generate_data uniform' g') = length (generate_data uniform g)"
proof -
  have keys: "map (\<lambda>r. (room_id r, timestamp r)) (generate_data uniform g) =
     List.product rooms (date_range start_date end_date)"
    by (rule generate_data_room_minutes)
  have dist: "distinct (List.product rooms (date_range start_date end_date))"
    by (rule distinct_product [OF distinct_rooms]) (simp add: date_range_def)
  have ord: "start_date \<le> end_date"
    by (simp add: start_date_value end_date_value)
  have nine: "length rooms = 9"
    by (simp add: rooms_def)
  have count: "length (generate_data uniform g) = 9 * nat (end_date - start_date + 1)"
    unfolding length_generate_data by (simp add: start_date_value end_date_value)
  have same: "length (generate_data uniform' g') = length (generate_data uniform g)"
    unfolding length_generate_data ..
  from keys dist ord nine count length_generate_data [of uniform g] same show ?thesis
    by (intro conjI)
qed

lemma generate_data_made:
  assumes "r \<in> set (generate_data u g)"
  obtains room fl d g' where
    "(room, fl) \<in> set (zip rooms floors)" "start_date \<le> d" "d \<le> end_date"
    "r = fst (gen_reading u room fl d g')"
proof -
  from generate_data_origin [OF assms] obtain k where
    k: "k \<in> set (zip rooms floors) \<times> {start_date..end_date}" "made_by u r k"
    by (rule bexE)
  from k(2) obtain g' where "r = fst (gen_reading u (fst (fst k)) (snd (fst k)) (snd k) g')"
    unfolding made_by_def by (rule exE)
  moreover from k(1) have "(fst (fst k), snd (fst k)) \<in> set (zip rooms floors)"
    "start_date \<le> snd k" "snd k \<le> end_date"
    by (auto simp: mem_Times_iff)
  ultimately show thesis using that by blast
qed

text \<open>
  Claim C1. For a sampler that respects its bounds, every reading of the generated table
  has current 0 exactly when its status is off, and each of the two holds exactly when the
  hour of its timestamp is outside [8, 20).
\<close>

theorem current_zero_iff_off:
  assumes "sampler_in_range uniform" and "r \<in> set (generate_data uniform g)"
  shows "(current r = 0 \<longleftrightarrow> status r = ''off'')
       \<and> (status r = ''off'' \<longleftrightarrow> hour (timestamp r) < 8 \<or> 20 \<le> hour (timestamp r))
       \<and> (current r = 0 \<longleftrightarrow> \<not> (8 \<le> hour (timestamp r) \<and> hour (timestamp r) < 20))"
proof -
  from assms(2) obtain room fl d g' where r: "r = fst (gen_reading uniform room fl d g')"
    by (rule generate_data_made)
  have draw: "fst (uniform 5 10 x) \<noteq> 0" for x
  proof -
    from assms(1) have "5 \<le> fst (uniform 5 10 x)"
      unfolding sampler_in_range_def by simp
    then show ?thesis by simp
  qed
  show ?thesis
    unfolding r gen_reading_current gen_reading_status gen_reading_keys
    using draw by auto
qed

lemma hour_morning: "hour (start_date + 480) = 8"
  by (simp add: start_date_value hour_def)

lemma start_le_end: "start_date \<le> end_date"
  by (simp add: start_date_value end_date_value)

lemma morning_in_window: "start_date \<le> start_date + 480" "start_date + 480 \<le> end_date"
  by (simp_all add: start_date_value end_date_value)

theorem current_zero_iff_off_witness:
  "sampler_in_range midpoint_sampler
   \<and> fst (gen_reading midpoint_sampler ''101'' ''1'' (start_date + 480) 0)
       \<in> set (generate_data midpoint_sampler 0)
   \<and> hour (timestamp (fst (gen_reading midpoint_sampler ''101'' ''1'' (start_date + 480) 0))) = 8
   \<and> current (fst (gen_reading midpoint_sampler ''101'' ''1'' (start_date + 480) 0)) = 15 / 2
   \<and> status (fst (gen_reading midpoint_sampler ''101'' ''1'' (start_date + 480) 0)) = ''on''
   \<and> ((current (fst (gen_reading midpoint_sampler ''101'' ''1'' (start_date + 480) 0)) = 0)
        = (status (fst (gen_reading midpoint_sampler ''101'' ''1'' (start_date + 480) 0)) = ''off''))"
proof -
  have rf: "(''101'', ''1'') \<in> set (zip rooms floors)"
    by (simp add: zip_rooms_floors)
  have mem: "fst (gen_reading midpoint_sampler ''101'' ''1'' (start_date + 480) 0)
       \<in> set (generate_data midpoint_sampler 0)"
    using midpoint_row_in_table [OF rf morning_in_window, of 0] by simp
  from current_zero_iff_off [OF midpoint_in_range mem]
  have "(current (fst (gen_reading midpoint_sampler ''101'' ''1'' (start_date + 480) 0)) = 0)
        = (status (fst (gen_reading midpoint_sampler ''101'' ''1'' (start_date + 480) 0)) = ''off'')"
    by (rule conjunct1)
  with midpoint_in_range mem show ?thesis
    by (simp add: midpoint_reading hour_morning)
qed

text \<open>
  Claim C2. Every reading of the generated table satisfies power = voltage * current,
  energy_kwh = power / 1000 / 60, bill_taka = energy_kwh * 5 and
  carbon_gco2 = energy_kwh * 500.
\<close>

theorem derived_fields:
  assumes "r \<in> set (generate_data uniform g)"
  shows "power_w r = voltage r * current r
       \<and> energy_kwh r = power_w r / 1000 / 60
       \<and> bill_taka r = energy_kwh r * 5
       \<and> carbon_gco2 r = energy_kwh r * 500"
proof -
  from assms obtain room fl d g' where r: "r = fst (gen_reading uniform room fl d g')"
    by (rule generate_data_made)
  show ?thesis
    unfolding r by (intro conjI gen_reading_derived)
qed

theorem derived_fields_witness:
  "fst (gen_reading midpoint_sampler ''202'' ''2'' (start_date + 480) 0)
       \<in> set (generate_data midpoint_sampler 0)
   \<and> voltage (fst (gen_reading midpoint_sampler ''202'' ''2'' (start_date + 480) 0)) = 230
   \<and> current (fst (gen_reading midpoint_sampler ''202'' ''2'' (start_date + 480) 0)) = 15 / 2
   \<and> power_w (fst (gen_reading midpoint_sampler ''202'' ''2'' (start_date + 480) 0)) = 230 * (15 / 2)
   \<and> energy_kwh (fst (gen_reading midpoint_sampler ''202'' ''2'' (start_date + 480) 0)) = 1725 / 1000 / 60
   \<and> bill_taka (fst (gen_reading midpoint_sampler ''202'' ''2'' (start_date + 480) 0)) = 23 / 800 * 5
   \<and> carbon_gco2 (fst (gen_reading midpoint_sampler ''202'' ''2'' (start_date + 480) 0)) = 23 / 800 * 500"
proof -
  have rf: "(''202'', ''2'') \<in> set (zip rooms floors)"
    by (simp add: zip_rooms_floors)
  have mem: "fst (gen_reading midpoint_sampler ''202'' ''2'' (start_date + 480) 0)
       \<in> set (generate_data midpoint_sampler 0)"
    using midpoint_row_in_table [OF rf morning_in_window, of 0] by simp
  from derived_fields [OF mem] mem show ?thesis
    by (simp add: midpoint_reading hour_morning)
qed

lemma table_room_floor_pairs:
  "(\<lambda>r. (room_id r, floor_no r)) ` set (generate_data u g) = set (zip rooms floors)"
proof (intro equalityI subsetI)
  fix p assume "p \<in> (\<lambda>r. (room_id r, floor_no r)) ` set (generate_data u g)"
  then obtain r where r: "r \<in> set (generate_data u g)" "p = (room_id r, floor_no r)"
    by (rule imageE)
  from r(1) obtain room fl d g' where
    "(room, fl) \<in> set (zip rooms floors)" "r = fst (gen_reading u room fl d g')"
    by (rule generate_data_made)
  with r(2) show "p \<in> set (zip rooms floors)"
    by (simp add: gen_reading_keys)
next
  fix p assume p: "p \<in> set (zip rooms floors)"
  from generate_data_has [OF p order_refl start_le_end, of u g] obtain r where
    r: "r \<in> set (generate_data u g)" "made_by u r (p, start_date)"
    by (rule bexE)
  from made_by_keys [OF r(2)] have "(room_id r, floor_no r) = p" by simp
  with r(1) show "p \<in> (\<lambda>r. (room_id r, floor_no r)) ` set (generate_data u g)"
    by (metis (mono_tags, lifting) image_eqI)
qed

lemma rooms_of_floor:
  "room_id ` {r \<in> set (generate_data u g). floor_no r = f} =
     set (map fst (filter (\<lambda>p. snd p = f) (zip rooms floors)))"
proof -
  have "room_id ` {r \<in> set (generate_data u g). floor_no r = f} =
        fst ` {p \<in> (\<lambda>r. (room_id r, floor_no r)) ` set (generate_data u g). snd p = f}"
    by force
  then show ?thesis unfolding table_room_floor_pairs by simp
qed

text \<open>
  Claim C10. In every reading of the generated table the floor is the first character of
  the room identifier, the pair being one of the nine of the fixed list: rooms 101 to 103
  are on floor 1, 201 to 203 on floor 2, 301 to 303 on floor 3. The table has the three
  floors 1, 2, 3 and each has exactly 3 rooms.
\<close>

theorem floor_is_first_char_of_room:
  "(\<forall>r \<in> set (generate_data uniform g).
      floor_no r = [hd (room_id r)] \<and> (room_id r, floor_no r) \<in> set (zip rooms floors))
   \<and> room_id ` {r \<in> set (generate_data uniform g). floor_no r = ''1''} = {''101'', ''102'', ''103''}
   \<and> room_id ` {r \<in> set (generate_data uniform g). floor_no r = ''2''} = {''201'', ''202'', ''203''}
   \<and> room_id ` {r \<in> set (generate_data uniform g). floor_no r = ''3''} = {''301'', ''302'', ''303''}
   \<and> floor_no ` set (generate_data uniform g) = {''1'', ''2'', ''3''}
   \<and> card (room_id ` {r \<in> set (generate_data uniform g). floor_no r = ''1''}) = 3
   \<and> card (room_id ` {r \<in> set (generate_data uniform g). floor_no r = ''2''}) = 3
   \<and> card (room_id ` {r \<in> set (generate_data uniform g). floor_no r = ''3''}) = 3"
proof -
  have rows: "\<forall>r \<in> set (generate_data uniform g).
      floor_no r = [hd (room_id r)] \<and> (room_id r, floor_no r) \<in> set (zip rooms floors)"
  proof
    fix r assume "r \<in> set (generate_data uniform g)"
    then have "(room_id r, floor_no r) \<in> set (zip rooms floors)"
      unfolding table_room_floor_pairs [of uniform g, symmetric] by (rule imageI)
    moreover from this have "floor_no r = [hd (room_id r)]"
      unfolding zip_rooms_floors by auto
    ultimately show "floor_no r = [hd (room_id r)] \<and> (room_id r, floor_no r) \<in> set (zip rooms floors)"
      by (rule conjI [rotated])
  qed
  have f1: "room_id ` {r \<in> set (generate_data uniform g). floor_no r = ''1''} = {''101'', ''102'', ''103''}"
    unfolding rooms_of_floor zip_rooms_floors by simp
  have f2: "room_id ` {r \<in> set (generate_data uniform g). floor_no r = ''2''} = {''201'', ''202'', ''203''}"
    unfolding rooms_of_floor zip_rooms_floors by simp
  have f3: "room_id ` {r \<in> set (generate_data uniform g). floor_no r = ''3''} = {''301'', ''302'', ''303''}"
    unfolding rooms_of_floor zip_rooms_floors by simp
  have "floor_no ` set (generate_data uniform g) =
        snd ` (\<lambda>r. (room_id r, floor_no r)) ` set (generate_data uniform g)"
    by (simp add: image_image)
  then have fl: "floor_no ` set (generate_data uniform g) = {''1'', ''2'', ''3''}"
    unfolding table_room_floor_pairs zip_rooms_floors by auto
  have c1: "card (room_id ` {r \<in> set (generate_data uniform g). floor_no r = ''1''}) = 3"
    unfolding f1 by simp
  have c2: "card (room_id ` {r \<in> set (generate_data uniform g). floor_no r = ''2''}) = 3"
    unfolding f2 by simp
  have c3: "card (room_id ` {r \<in> set (generate_data uniform g). floor_no r = ''3''}) = 3"
    unfolding f3 by simp
  from rows f1 f2 f3 fl c1 c2 c3 show ?thesis by (intro conjI)
qed

theorem floor_is_first_char_of_room_witness:
  "fst (gen_reading midpoint_sampler ''303'' ''3'' start_date 0) \<in> set (generate_data midpoint_sampler 0)
   \<and> room_id (fst (gen_reading midpoint_sampler ''303'' ''3'' start_date 0)) = ''303''
   \<and> floor_no (fst (gen_reading midpoint_sampler ''303'' ''3'' start_date 0)) = ''3''
   \<and> floor_no (fst (gen_reading midpoint_sampler ''303'' ''3'' start_date 0)) =
        [hd (room_id (fst (gen_reading midpoint_sampler ''303'' ''3'' start_date 0)))]"
proof -
  have rf: "(''303'', ''3'') \<in> set (zip rooms floors)"
    by (simp add: zip_rooms_floors)
  have mem: "fst (gen_reading midpoint_sampler ''303'' ''3'' start_date 0)
       \<in> set (generate_data midpoint_sampler 0)"
    using midpoint_row_in_table [OF rf order_refl start_le_end, of 0] by simp
  from floor_is_first_char_of_room [of midpoint_sampler 0]
  have "\<forall>r \<in> set (generate_data midpoint_sampler 0).
      floor_no r = [hd (room_id r)] \<and> (room_id r, floor_no r) \<in> set (zip rooms floors)"
    by (rule conjunct1)
  from bspec [OF this mem]
  have "floor_no (fst (gen_reading midpoint_sampler ''303'' ''3'' start_date 0)) =
        [hd (room_id (fst (gen_reading midpoint_sampler ''303'' ''3'' start_date 0)))]"
    by (rule conjunct1)
  with mem gen_reading_keys(2) [of midpoint_sampler "''303''" "''3''" start_date 0]
    gen_reading_keys(3) [of midpoint_sampler "''303''" "''3''" start_date 0]
  show ?thesis by (intro conjI)
qed

section \<open>Claims about the date-range filter\<close>

lemma first_day: "dt_date start_date = ymd2ord 2025 11 1"
  by (simp add: start_date_value dt_date_def ymd2ord_def days_before_year_def
      days_before_month_def is_leap_def)

lemma last_day: "dt_date end_date = ymd2ord 2025 11 23"
  by (simp add: end_date_value dt_date_def ymd2ord_def days_before_year_def
      days_before_month_def is_leap_def)

lemma dt_date_mono: "t \<le> t' \<Longrightarrow> dt_date t \<le> dt_date t'"
  by (simp add: dt_date_def zdiv_mono1)

lemma table_dates:
  assumes "r \<in> set (generate_data u g)"
  shows "ymd2ord 2025 11 1 \<le> dt_date (timestamp r)" "dt_date (timestamp r) \<le> ymd2ord 2025 11 23"
proof -
  from assms obtain room fl d g' where
    d: "start_date \<le> d" "d \<le> end_date" and r: "r = fst (gen_reading u room fl d g')"
    by (rule generate_data_made)
  from dt_date_mono [OF d(1)] show "ymd2ord 2025 11 1 \<le> dt_date (timestamp r)"
    unfolding r gen_reading_keys first_day .
  from dt_date_mono [OF d(2)] show "dt_date (timestamp r) \<le> ymd2ord 2025 11 23"
    unfolding r gen_reading_keys last_day .
qed

lemma totals_Nil: "total_energy [] = 0" "total_bill [] = 0" "total_carbon [] = 0"
  by (simp_all add: total_energy_def total_bill_def total_carbon_def)

lemma count_list_filter:
  "count_list (filter P xs) x = (if P x then count_list xs x else 0)"
  by (induction xs) auto

lemma filtered_none:
  assumes "\<forall>r \<in> set df. \<not> (s \<le> dt_date (timestamp r) \<and> dt_date (timestamp r) \<le> e)"
  shows "filtered_df df s e = []"
    and "total_energy (filtered_df df s e) = 0"
    and "total_bill (filtered_df df s e) = 0"
    and "total_carbon (filtered_df df s e) = 0"
proof -
  from assms show e: "filtered_df df s e = []"
    by (simp add: filtered_df_def filter_empty_conv)
  show "total_energy (filtered_df df s e) = 0" unfolding e by (rule totals_Nil)
  show "total_bill (filtered_df df s e) = 0" unfolding e by (rule totals_Nil)
  show "total_carbon (filtered_df df s e) = 0" unfolding e by (rule totals_Nil)
qed

text \<open>
  Claim C4. For every table and every pair of dates, the range-filtered table holds
  exactly the readings of the table whose timestamp's date lies between the two dates,
  each as often as the table holds it. When no reading matches, and in particular when
  the start date is after the end date, or when the range misses the generated window, the
  filtered table is empty and the three sums are 0. The filter and the sums are total: no
  input makes them fail.
\<close>

theorem filter_by_date_range:
  "(\<forall>r. r \<in> set (filtered_df df s e) \<longleftrightarrow>
         r \<in> set df \<and> s \<le> dt_date (timestamp r) \<and> dt_date (timestamp r) \<le> e)
   \<and> (\<forall>r. count_list (filtered_df df s e) r =
         (if s \<le> dt_date (timestamp r) \<and> dt_date (timestamp r) \<le> e then count_list df r else 0))
   \<and> ((\<forall>r \<in> set df. \<not> (s \<le> dt_date (timestamp r) \<and> dt_date (timestamp r) \<le> e)) \<longrightarrow>
         filtered_df df s e = []
         \<and> total_energy (filtered_df df s e) = 0
         \<and> total_bill (filtered_df df s e) = 0
         \<and> total_carbon (filtered_df df s e) = 0)
   \<and> (e < s \<longrightarrow>
         filtered_df df s e = []
         \<and> total_energy (filtered_df df s e) = 0
         \<and> total_bill (filtered_df df s e) = 0
         \<and> total_carbon (filtered_df df s e) = 0)
   \<and> (e < ymd2ord 2025 11 1 \<or> ymd2ord 2025 11 23 < s \<longrightarrow>
         filtered_df (generate_data uniform g) s e = []
         \<and> total_energy (filtered_df (generate_data uniform g) s e) = 0
         \<and> total_bill (filtered_df (generate_data uniform g) s e) = 0
         \<and> total_carbon (filtered_df (generate_data uniform g) s e) = 0)"
proof (intro conjI allI impI)
  fix r
  show "r \<in> set (filtered_df df s e) \<longleftrightarrow>
         r \<in> set df \<and> s \<le> dt_date (timestamp r) \<and> dt_date (timestamp r) \<le> e"
    by (simp add: filtered_df_def)
  show "count_list (filtered_df df s e) r =
         (if s \<le> dt_date (timestamp r) \<and> dt_date (timestamp r) \<le> e then count_list df r else 0)"
    unfolding filtered_df_def by (rule count_list_filter)
next
  assume none: "\<forall>r \<in> set df. \<not> (s \<le> dt_date (timestamp r) \<and> dt_date (timestamp r) \<le> e)"
  note n = filtered_none [OF none]
  from n(1) show "filtered_df df s e = []" .
  from n(2) show "total_energy (filtered_df df s e) = 0" .
  from n(3) show "total_bill (filtered_df df s e) = 0" .
  from n(4) show "total_carbon (filtered_df df s e) = 0" .
next
  assume inv: "e < s"
  then have "\<forall>r \<in> set df. \<not> (s \<le> dt_date (timestamp r) \<and> dt_date (timestamp r) \<le> e)"
    by auto
  note n = filtered_none [OF this]
  from n(1) show "filtered_df df s e = []" .
  from n(2) show "total_energy (filtered_df df s e) = 0" .
  from n(3) show "total_bill (filtered_df df s e) = 0" .
  from n(4) show "total_carbon (filtered_df df s e) = 0" .
next
  assume out: "e < ymd2ord 2025 11 1 \<or> ymd2ord 2025 11 23 < s"
  have "\<forall>r \<in> set (generate_data uniform g).
          \<not> (s \<le> dt_date (timestamp r) \<and> dt_date (timestamp r) \<le> e)"
  proof
    fix r assume "r \<in> set (generate_data uniform g)"
    from table_dates [OF this] out
    show "\<not> (s \<le> dt_date (timestamp r) \<and> dt_date (timestamp r) \<le> e)" by linarith
  qed
  note n = filtered_none [OF this]
  from n(1) show "filtered_df (generate_data uniform g) s e = []" .
  from n(2) show "total_energy (filtered_df (generate_data uniform g) s e) = 0" .
  from n(3) show "total_bill (filtered_df (generate_data uniform g) s e) = 0" .
  from n(4) show "total_carbon (filtered_df (generate_data uniform g) s e) = 0" .
qed

lemma ymd2ord_values:
  "ymd2ord 2025 11 1 = 739556" "ymd2ord 2025 11 2 = 739557" "ymd2ord 2025 11 3 = 739558"
  "ymd2ord 2025 11 23 = 739578" "ymd2ord 2025 12 1 = 739586" "ymd2ord 2025 12 31 = 739616"
  by (simp_all add: ymd2ord_def days_before_year_def days_before_month_def is_leap_def)

theorem filter_by_date_range_witness:
  "ymd2ord 2025 11 1 < ymd2ord 2025 11 23
   \<and> filtered_df (generate_data midpoint_sampler 0) (ymd2ord 2025 11 23) (ymd2ord 2025 11 1) = []
   \<and> total_energy (filtered_df (generate_data midpoint_sampler 0) (ymd2ord 2025 11 23) (ymd2ord 2025 11 1)) = 0
   \<and> ymd2ord 2025 11 23 < ymd2ord 2025 12 1
   \<and> filtered_df (generate_data midpoint_sampler 0) (ymd2ord 2025 12 1) (ymd2ord 2025 12 31) = []
   \<and> total_bill (filtered_df (generate_data midpoint_sampler 0) (ymd2ord 2025 12 1) (ymd2ord 2025 12 31)) = 0
   \<and> dt_date (timestamp (fst (gen_reading midpoint_sampler ''101'' ''1'' start_date 0))) < ymd2ord 2025 11 2
   \<and> filtered_df [fst (gen_reading midpoint_sampler ''101'' ''1'' start_date 0)]
        (ymd2ord 2025 11 2) (ymd2ord 2025 11 3) = []
   \<and> total_carbon (filtered_df [fst (gen_reading midpoint_sampler ''101'' ''1'' start_date 0)]
        (ymd2ord 2025 11 2) (ymd2ord 2025 11 3)) = 0"
proof -
  have lt: "ymd2ord 2025 11 1 < ymd2ord 2025 11 23"
    by (simp add: ymd2ord_values)
  have lt': "ymd2ord 2025 11 23 < ymd2ord 2025 12 1"
    by (simp add: ymd2ord_values)
  have day: "dt_date (timestamp (fst (gen_reading midpoint_sampler ''101'' ''1'' start_date 0)))
      < ymd2ord 2025 11 2"
    unfolding gen_reading_keys first_day by (simp add: ymd2ord_values)
  then have out: "\<forall>r \<in> set [fst (gen_reading midpoint_sampler ''101'' ''1'' start_date 0)].
      \<not> (ymd2ord 2025 11 2 \<le> dt_date (timestamp r) \<and> dt_date (timestamp r) \<le> ymd2ord 2025 11 3)"
    by simp
  note thm1 = filter_by_date_range [of "generate_data midpoint_sampler 0"
      "ymd2ord 2025 11 23" "ymd2ord 2025 11 1" midpoint_sampler 0]
  note thm2 = filter_by_date_range [of "generate_data midpoint_sampler 0"
      "ymd2ord 2025 12 1" "ymd2ord 2025 12 31" midpoint_sampler 0]
  note thm3 = filter_by_date_range [of "[fst (gen_reading midpoint_sampler ''101'' ''1'' start_date 0)]"
      "ymd2ord 2025 11 2" "ymd2ord 2025 11 3" midpoint_sampler 0]
  note a = thm1 [THEN conjunct2, THEN conjunct2, THEN conjunct2, THEN conjunct1, THEN mp, OF lt]
  note b = thm2 [THEN conjunct2, THEN conjunct2, THEN conjunct2, THEN conjunct2, THEN mp,
      OF disjI2 [OF lt']]
  note c = thm3 [THEN conjunct2, THEN conjunct2, THEN conjunct1, THEN mp, OF out]
  from lt a [THEN conjunct1] a [THEN conjunct2, THEN conjunct1]
    lt' b [THEN conjunct1] b [THEN conjunct2, THEN conjunct2, THEN conjunct1]
    day c [THEN conjunct1] c [THEN conjunct2, THEN conjunct2, THEN conjunct2]
  show ?thesis by (intro conjI)
qed

lemma filtered_full:
  assumes "s \<le> ymd2ord 2025 11 1" and "ymd2ord 2025 11 23 \<le> e"
  shows "filtered_df (generate_data u g) s e = generate_data u g"
  unfolding filtered_df_def
proof (rule filter_True, rule ballI)
  fix r assume "r \<in> set (generate_data u g)"
  from table_dates [OF this] assms
  show "s \<le> dt_date (timestamp r) \<and> dt_date (timestamp r) \<le> e" by linarith
qed

text \<open>
  Claim C9. A date range that starts on or before 1 November 2025 and ends on or after
  23 November 2025 covers the generator's window: the filtered table is the full table,
  and the sums of energy_kwh, bill_taka and carbon_gco2 are those of the full table.
\<close>

theorem full_range_same_sums:
  assumes "s \<le> ymd2ord 2025 11 1" and "ymd2ord 2025 11 23 \<le> e"
  shows "filtered_df (generate_data uniform g) s e = generate_data uniform g
       \<and> total_energy (filtered_df (generate_data uniform g) s e) = total_energy (generate_data uniform g)
       \<and> total_bill (filtered_df (generate_data uniform g) s e) = total_bill (generate_data uniform g)
       \<and> total_carbon (filtered_df (generate_data uniform g) s e) = total_carbon (generate_data uniform g)"
proof -
  have "filtered_df (generate_data uniform g) s e = generate_data uniform g"
    by (rule filtered_full [OF assms])
  then show ?thesis by simp
qed

theorem full_range_same_sums_witness:
  "ymd2ord 2025 11 1 \<le> ymd2ord 2025 11 1 \<and> ymd2ord 2025 11 23 \<le> ymd2ord 2025 11 23
   \<and> filtered_df (generate_data midpoint_sampler 0) (ymd2ord 2025 11 1) (ymd2ord 2025 11 23) =
       generate_data midpoint_sampler 0
   \<and> total_energy (filtered_df (generate_data midpoint_sampler 0) (ymd2ord 2025 11 1) (ymd2ord 2025 11 23)) =
       total_energy (generate_data midpoint_sampler 0)
   \<and> total_bill (filtered_df (generate_data midpoint_sampler 0) (ymd2ord 2025 11 1) (ymd2ord 2025 11 23)) =
       total_bill (generate_data midpoint_sampler 0)
   \<and> total_carbon (filtered_df (generate_data midpoint_sampler 0) (ymd2ord 2025 11 1) (ymd2ord 2025 11 23)) =
       total_carbon (generate_data midpoint_sampler 0)"
  using full_range_same_sums [OF order_refl order_refl, of midpoint_sampler 0]
  by simp

section \<open>Claims about the device registry\<close>

lemma dict_set_keys:
  "map fst (dict_set d k v) = (if k \<in> set (map fst d) then map fst d else map fst d @ [k])"
  by (induction d) (auto simp: dict_set_def)

lemma map_of_replace:
  "map_of (map (\<lambda>kv. if fst kv = k then (k, v) else kv) d) =
     (if k \<in> set (map fst d) then (map_of d)(k \<mapsto> v) else map_of d)"
  by (induction d) (auto simp: fun_upd_twist)

lemma dict_set_lookup: "map_of (dict_set d k v) = (map_of d)(k \<mapsto> v)"
proof (cases "k \<in> set (map fst d)")
  case True
  then show ?thesis by (simp add: dict_set_def map_of_replace)
next
  case False
  then have "map_of d k = None" by (simp add: map_of_eq_None_iff)
  with False show ?thesis
    by (auto simp: dict_set_def map_add_def fun_eq_iff split: option.splits)
qed

lemma dict_set_entries:
  "set (dict_set d k v) = {kv \<in> set d. fst kv \<noteq> k} \<union> {(k, v)}"
  by (auto simp: dict_set_def)

text \<open>
  Claim C8, as the code has it. With a non-empty room identifier and a non-empty device
  identifier, the Add/Update handler stores exactly that pair: the registry then maps the
  room to the device, has no other entry for the room, keeps every other entry, keeps an
  existing room at its place and puts a new room last, and the success message is shown.
  With an empty room or device identifier the guard of line 171 skips the update: the
  registry is unchanged, no message is shown, and nothing fails.
\<close>

theorem add_update_device_guarded:
  "(new_room \<noteq> [] \<and> new_device \<noteq> [] \<longrightarrow>
      fst (add_update_device devs new_room new_device) =
        Inr [''Added/Updated device '' @ new_device @ '' for room '' @ new_room]
      \<and> (new_room, new_device) \<in> set (snd (add_update_device devs new_room new_device))
      \<and> (\<forall>v. (new_room, v) \<in> set (snd (add_update_device devs new_room new_device)) \<longrightarrow> v = new_device)
      \<and> (\<forall>k v. k \<noteq> new_room \<longrightarrow>
            ((k, v) \<in> set (snd (add_update_device devs new_room new_device)) \<longleftrightarrow> (k, v) \<in> set devs))
      \<and> map_of (snd (add_update_device devs new_room new_device)) = (map_of devs)(new_room \<mapsto> new_device)
      \<and> map fst (snd (add_update_device devs new_room new_device)) =
          (if new_room \<in> set (map fst devs) then map fst devs else map fst devs @ [new_room]))
   \<and> (new_room = [] \<or> new_device = [] \<longrightarrow>
      add_update_device devs new_room new_device = (Inr [], devs))"
proof (intro conjI impI)
  assume ok: "new_room \<noteq> [] \<and> new_device \<noteq> []"
  then have res: "add_update_device devs new_room new_device =
      (Inr [''Added/Updated device '' @ new_device @ '' for room '' @ new_room],
       dict_set devs new_room new_device)"
    by (simp add: add_update_device_def)
  show "fst (add_update_device devs new_room new_device) =
        Inr [''Added/Updated device '' @ new_device @ '' for room '' @ new_room]"
    unfolding res by simp
  show "(new_room, new_device) \<in> set (snd (add_update_device devs new_room new_device))"
    unfolding res snd_conv dict_set_entries by simp
  show "\<forall>v. (new_room, v) \<in> set (snd (add_update_device devs new_room new_device)) \<longrightarrow> v = new_device"
    unfolding res snd_conv dict_set_entries by simp
  show "\<forall>k v. k \<noteq> new_room \<longrightarrow>
            ((k, v) \<in> set (snd (add_update_device devs new_room new_device)) \<longleftrightarrow> (k, v) \<in> set devs)"
    unfolding res snd_conv dict_set_entries by simp
  show "map_of (snd (add_update_device devs new_room new_device)) = (map_of devs)(new_room \<mapsto> new_device)"
    unfolding res snd_conv by (rule dict_set_lookup)
  show "map fst (snd (add_update_device devs new_room new_device)) =
          (if new_room \<in> set (map fst devs) then map fst devs else map fst devs @ [new_room])"
    unfolding res snd_conv by (rule dict_set_keys)
next
  assume "new_room = [] \<or> new_device = []"
  then show "add_update_device devs new_room new_device = (Inr [], devs)"
    by (auto simp: add_update_device_def)
qed

text \<open>
  Claim C8 as stated does not hold: an Add/Update with an empty room identifier is not
  an error of any kind, it is a run without a message that leaves the registry as it was.
\<close>

theorem add_update_empty_room_is_no_error:
  "\<not> isl (fst (add_update_device [(''201'', ''device_201'')] [] ''dev_201''))
   \<and> add_update_device [(''201'', ''device_201'')] [] ''dev_201'' = (Inr [], [(''201'', ''device_201'')])"
  by (simp add: add_update_device_def)

theorem add_update_device_guarded_witness:
  "''201'' \<noteq> [] \<and> ''dev_201'' \<noteq> []
   \<and> add_update_device [(''101'', ''device_101''), (''201'', ''device_201'')] ''201'' ''dev_201'' =
       (Inr [''Added/Updated device dev_201 for room 201''], [(''101'', ''device_101''), (''201'', ''dev_201'')])
   \<and> (''201'', ''dev_201'') \<in> set (snd (add_update_device [(''101'', ''device_101''), (''201'', ''device_201'')] ''201'' ''dev_201''))
   \<and> add_update_device [(''101'', ''device_101'')] ''201'' [] = (Inr [], [(''101'', ''device_101'')])"
proof -
  have ne: "''201'' \<noteq> [] \<and> ''dev_201'' \<noteq> []" by simp
  note t1 = add_update_device_guarded [of "''201''" "''dev_201''"
      "[(''101'', ''device_101''), (''201'', ''device_201'')]"]
  note t2 = add_update_device_guarded [of "''201''" "[]" "[(''101'', ''device_101'')]"]
  note a = t1 [THEN conjunct1, THEN mp, OF ne]
  note b = t2 [THEN conjunct2, THEN mp, OF disjI2 [OF refl]]
  have ev: "add_update_device [(''101'', ''device_101''), (''201'', ''device_201'')] ''201'' ''dev_201'' =
       (Inr [''Added/Updated device dev_201 for room 201''], [(''101'', ''device_101''), (''201'', ''dev_201'')])"
    by (simp add: add_update_device_def dict_set_def)
  from ne [THEN conjunct1] ne [THEN conjunct2] ev a [THEN conjunct2, THEN conjunct1] b
  show ?thesis by (intro conjI)
qed








section \<open>Claims about the aggregates\<close>

lemma sort_remdups_image:
  "sort (remdups (map f xs)) = sorted_list_of_set (f ` set xs)"
  unfolding set_map [symmetric] sorted_list_of_set_sort_remdups ..

lemma floor_trend_keys:
  "map fst (floor_trend df) = sorted_list_of_set (timestamp ` set df)"
  unfolding sort_remdups_image [symmetric] by (simp add: floor_trend_def o_def)

lemma floor_trend_value:
  assumes "p \<in> set (floor_trend df)"
  shows "snd p = sum_list (map power_w (filter (\<lambda>r. timestamp r = fst p) df))"
  using assms by (auto simp: floor_trend_def)

text \<open>
  Claim C6. For every table, date range and selected floor, the floor trend has one entry
  per distinct timestamp of the floor's filtered readings, in strictly ascending order of
  timestamp, and the value of an entry is the sum of power over the floor's filtered
  readings at that timestamp. The floor's filtered readings are the readings of the table
  in the date range whose floor is the selected one.
\<close>

theorem floor_trend_per_timestamp:
  "map fst (floor_trend (floor_df (filtered_df df s e) selected_floor)) =
     sorted_list_of_set (timestamp ` set (floor_df (filtered_df df s e) selected_floor))
   \<and> sorted_wrt (<) (map fst (floor_trend (floor_df (filtered_df df s e) selected_floor)))
   \<and> set (map fst (floor_trend (floor_df (filtered_df df s e) selected_floor))) =
       timestamp ` set (floor_df (filtered_df df s e) selected_floor)
   \<and> (\<forall>p \<in> set (floor_trend (floor_df (filtered_df df s e) selected_floor)).
        snd p = sum_list (map power_w
                  (filter (\<lambda>r. timestamp r = fst p) (floor_df (filtered_df df s e) selected_floor))))
   \<and> (\<forall>r. r \<in> set (floor_df (filtered_df df s e) selected_floor) \<longleftrightarrow>
        r \<in> set df \<and> s \<le> dt_date (timestamp r) \<and> dt_date (timestamp r) \<le> e
        \<and> Some (floor_no r) = selected_floor)"
proof (intro conjI ballI allI)
  show "map fst (floor_trend (floor_df (filtered_df df s e) selected_floor)) =
     sorted_list_of_set (timestamp ` set (floor_df (filtered_df df s e) selected_floor))"
    by (rule floor_trend_keys)
  show "sorted_wrt (<) (map fst (floor_trend (floor_df (filtered_df df s e) selected_floor)))"
    unfolding floor_trend_keys by simp
  show "set (map fst (floor_trend (floor_df (filtered_df df s e) selected_floor))) =
       timestamp ` set (floor_df (filtered_df df s e) selected_floor)"
    unfolding floor_trend_keys by simp
next
  fix p assume "p \<in> set (floor_trend (floor_df (filtered_df df s e) selected_floor))"
  then show "snd p = sum_list (map power_w
      (filter (\<lambda>r. timestamp r = fst p) (floor_df (filtered_df df s e) selected_floor)))"
    by (rule floor_trend_value)
next
  fix r
  show "r \<in> set (floor_df (filtered_df df s e) selected_floor) \<longleftrightarrow>
        r \<in> set df \<and> s \<le> dt_date (timestamp r) \<and> dt_date (timestamp r) \<le> e
        \<and> Some (floor_no r) = selected_floor"
    by (auto simp: floor_df_def filtered_df_def)
qed


lemma example_floor_df:
  "floor_df (filtered_df example_df 739556 739556) (Some ''1'') = take 3 example_df"
  by (simp add: example_df_def floor_df_def filtered_df_def dt_date_def)

lemma example_trend:
  "floor_trend (floor_df (filtered_df example_df 739556 739556) (Some ''1'')) =
     [(1064961120, 3450), (1064961121, 1725)]"
  unfolding example_floor_df by (simp add: example_df_def floor_trend_def)

theorem floor_trend_per_timestamp_witness:
  "floor_trend (floor_df (filtered_df example_df 739556 739556) (Some ''1'')) =
     [(1064961120, 3450), (1064961121, 1725)]
   \<and> (1064961120, 3450) \<in> set (floor_trend (floor_df (filtered_df example_df 739556 739556) (Some ''1'')))
   \<and> snd (1064961120 :: int, 3450 :: real) =
       sum_list (map power_w (filter (\<lambda>r. timestamp r = fst (1064961120 :: int, 3450 :: real))
         (floor_df (filtered_df example_df 739556 739556) (Some ''1''))))"
proof -
  have mem: "(1064961120, 3450) \<in>
      set (floor_trend (floor_df (filtered_df example_df 739556 739556) (Some ''1'')))"
    unfolding example_trend by simp
  note t = floor_trend_per_timestamp [of example_df 739556 739556 "Some ''1''"]
  note v = t [THEN conjunct2, THEN conjunct2, THEN conjunct2, THEN conjunct1, THEN bspec, OF mem]
  from example_trend mem v show ?thesis by (intro conjI)
qed

lemma product_filter_room:
  assumes "distinct rs"
  shows "map snd (filter (\<lambda>p. fst p = k \<and> Q (snd p)) (List.product rs ds)) =
         (if k \<in> set rs then filter Q ds else [])"
  using assms
proof (induction rs)
  case Nil
  then show ?case by simp
next
  case (Cons x xs)
  have here: "map snd (filter (\<lambda>p. fst p = k \<and> Q (snd p)) (map (Pair x) ds)) =
              (if x = k then filter Q ds else [])"
    by (simp add: filter_map o_def)
  from Cons show ?case
    by (auto simp: here)
qed

lemma group_timestamps:
  "map timestamp (room_group (filtered_df (generate_data u g) s e) k) =
     (if k \<in> set rooms
      then filter (\<lambda>t. s \<le> dt_date t \<and> dt_date t \<le> e) (date_range start_date end_date)
      else [])"
proof -
  have "map timestamp (room_group (filtered_df (generate_data u g) s e) k) =
        map snd (filter (\<lambda>p. fst p = k \<and> (s \<le> dt_date (snd p) \<and> dt_date (snd p) \<le> e))
          (map (\<lambda>r. (room_id r, timestamp r)) (generate_data u g)))"
    by (simp add: room_group_def filtered_df_def filter_map o_def conj_commute)
  also have "\<dots> = (if k \<in> set rooms
      then filter (\<lambda>t. s \<le> dt_date t \<and> dt_date t \<le> e) (date_range start_date end_date)
      else [])"
    unfolding generate_data_room_minutes by (rule product_filter_room [OF distinct_rooms])
  finally show ?thesis .
qed

lemma group_timestamps_ascending:
  "sorted_wrt (<) (map timestamp (room_group (filtered_df (generate_data u g) s e) k))"
  unfolding group_timestamps by (simp add: date_range_def sorted_wrt_filter)

lemma ascending_last_max:
  "sorted_wrt (<) (map f xs) \<Longrightarrow> x \<in> set xs \<Longrightarrow> f x \<le> (f (last xs) :: int)"
  by (induction xs) (auto simp: less_imp_le)

lemma room_summaries_keys:
  "map rs_room_id (room_summaries df) = sorted_list_of_set (room_id ` set df)"
  unfolding sort_remdups_image [symmetric] by (simp add: room_summaries_def o_def Let_def)

lemma length_room_summaries: "length (room_summaries df) = card (room_id ` set df)"
  by (simp add: room_summaries_def length_remdups_card_conv)

lemma room_summaries_row:
  assumes "row \<in> set (room_summaries df)"
  shows "rs_room_id row \<in> room_id ` set df"
    and "rs_power row = sum_list (map power_w (room_group df (rs_room_id row)))
           / real (length (room_group df (rs_room_id row)))"
    and "rs_status row = status (last (room_group df (rs_room_id row)))"
    and "rs_energy_kwh row = sum_list (map energy_kwh (room_group df (rs_room_id row)))"
    and "rs_bill_taka row = sum_list (map bill_taka (room_group df (rs_room_id row)))"
    and "rs_carbon_gco2 row = sum_list (map carbon_gco2 (room_group df (rs_room_id row)))"
  using assms by (auto simp: room_summaries_def Let_def)

lemma room_group_nonempty: "k \<in> room_id ` set df \<Longrightarrow> room_group df k \<noteq> []"
  by (auto simp: room_group_def filter_empty_conv)

lemma table_rooms: "room_id ` set (generate_data u g) = set rooms"
proof -
  have "room_id ` set (generate_data u g) =
        fst ` (\<lambda>r. (room_id r, floor_no r)) ` set (generate_data u g)"
    by (simp add: image_image)
  also have "\<dots> = set (map fst (zip rooms floors))"
    unfolding table_room_floor_pairs by simp
  finally show ?thesis unfolding map_fst_zip_rooms .
qed

lemma filtered_rooms_card: "card (room_id ` set (filtered_df (generate_data u g) s e)) \<le> 9"
proof -
  have "room_id ` set (filtered_df (generate_data u g) s e) \<subseteq> set rooms"
    unfolding table_rooms [of u g, symmetric] by (auto simp: filtered_df_def)
  then have "card (room_id ` set (filtered_df (generate_data u g) s e)) \<le> card (set rooms)"
    by (rule card_mono [OF finite_set])
  also have "card (set rooms) = 9"
    by (simp add: distinct_card [OF distinct_rooms] rooms_def)
  finally show ?thesis .
qed

lemma room_tiles_by_group:
  assumes "fdf = filtered_df (generate_data uniform g) s e"
  shows "map rs_room_id (room_summaries fdf) = sorted_list_of_set (room_id ` set fdf)
       \<and> length (room_summaries fdf) = card (room_id ` set fdf)
       \<and> length (room_summaries fdf) \<le> 9
       \<and> (\<forall>row \<in> set (room_summaries fdf).
            room_group fdf (rs_room_id row) \<noteq> []
            \<and> rs_power row = sum_list (map power_w (room_group fdf (rs_room_id row)))
                 / real (length (room_group fdf (rs_room_id row)))
            \<and> sorted_wrt (<) (map timestamp (room_group fdf (rs_room_id row)))
            \<and> (\<forall>r \<in> set (room_group fdf (rs_room_id row)).
                  timestamp r \<le> timestamp (last (room_group fdf (rs_room_id row))))
            \<and> rs_status row = status (last (room_group fdf (rs_room_id row)))
            \<and> rs_energy_kwh row = sum_list (map energy_kwh (room_group fdf (rs_room_id row)))
            \<and> rs_bill_taka row = sum_list (map bill_taka (room_group fdf (rs_room_id row)))
            \<and> rs_carbon_gco2 row = sum_list (map carbon_gco2 (room_group fdf (rs_room_id row))))"
proof (intro conjI ballI)
  show "map rs_room_id (room_summaries fdf) = sorted_list_of_set (room_id ` set fdf)"
    by (rule room_summaries_keys)
  show "length (room_summaries fdf) = card (room_id ` set fdf)"
    by (rule length_room_summaries)
  show "length (room_summaries fdf) \<le> 9"
    unfolding length_room_summaries assms by (rule filtered_rooms_card)
next
  fix row assume row: "row \<in> set (room_summaries fdf)"
  note fields = room_summaries_row [OF row]
  show "room_group fdf (rs_room_id row) \<noteq> []"
    by (rule room_group_nonempty [OF fields(1)])
  show "rs_power row = sum_list (map power_w (room_group fdf (rs_room_id row)))
                 / real (length (room_group fdf (rs_room_id row)))"
    by (rule fields(2))
  show "sorted_wrt (<) (map timestamp (room_group fdf (rs_room_id row)))"
    unfolding assms by (rule group_timestamps_ascending)
  show "rs_status row = status (last (room_group fdf (rs_room_id row)))"
    by (rule fields(3))
  show "rs_energy_kwh row = sum_list (map energy_kwh (room_group fdf (rs_room_id row)))"
    by (rule fields(4))
  show "rs_bill_taka row = sum_list (map bill_taka (room_group fdf (rs_room_id row)))"
    by (rule fields(5))
  show "rs_carbon_gco2 row = sum_list (map carbon_gco2 (room_group fdf (rs_room_id row)))"
    by (rule fields(6))
next
  fix row r
  assume "row \<in> set (room_summaries fdf)" and r: "r \<in> set (room_group fdf (rs_room_id row))"
  have "sorted_wrt (<) (map timestamp (room_group fdf (rs_room_id row)))"
    unfolding assms by (rule group_timestamps_ascending)
  from ascending_last_max [OF this r]
  show "timestamp r \<le> timestamp (last (room_group fdf (rs_room_id row)))" .
qed

lemma table_status:
  assumes "r \<in> set (generate_data u g)"
  shows "status r = (if hour (timestamp r) < 8 \<or> 20 \<le> hour (timestamp r) then ''off'' else ''on'')"
proof -
  from assms obtain room fl d g' where r: "r = fst (gen_reading u room fl d g')"
    by (rule generate_data_made)
  show ?thesis unfolding r gen_reading_status gen_reading_keys ..
qed

lemma sorted_rooms: "sorted_list_of_set (set rooms) = rooms"
  unfolding sorted_list_of_set_sort_remdups by (simp add: rooms_def)

lemma hour_end: "hour end_date = 23"
  by (simp add: end_date_value hour_def)

lemma full_window_group_last:
  assumes "k \<in> set rooms"
  shows "timestamp (last (room_group (generate_data u g) k)) = end_date"
    and "room_group (generate_data u g) k \<noteq> []"
    and "status (last (room_group (generate_data u g) k)) = ''off''"
proof -
  let ?grp = "room_group (generate_data u g) k"
  have full: "filtered_df (generate_data u g) (ymd2ord 2025 11 1) (ymd2ord 2025 11 23) = generate_data u g"
    by (rule filtered_full) simp_all
  have all: "filter (\<lambda>t. ymd2ord 2025 11 1 \<le> dt_date t \<and> dt_date t \<le> ymd2ord 2025 11 23)
      (date_range start_date end_date) = date_range start_date end_date"
  proof (rule filter_True, rule ballI)
    fix t assume "t \<in> set (date_range start_date end_date)"
    then have "start_date \<le> t" "t \<le> end_date" by (simp_all add: set_date_range)
    from dt_date_mono [OF this(1)] dt_date_mono [OF this(2)]
    show "ymd2ord 2025 11 1 \<le> dt_date t \<and> dt_date t \<le> ymd2ord 2025 11 23"
      unfolding first_day last_day by (rule conjI)
  qed
  from group_timestamps [of u g "ymd2ord 2025 11 1" "ymd2ord 2025 11 23" k] assms
  have ts: "map timestamp ?grp = date_range start_date end_date"
    unfolding full all by simp
  have "date_range start_date end_date \<noteq> []"
    using start_le_end by (simp add: date_range_def)
  with ts show ne: "?grp \<noteq> []" by auto
  have "timestamp (last ?grp) = last (map timestamp ?grp)"
    by (rule last_map [OF ne, symmetric])
  also have "\<dots> = end_date"
    unfolding ts date_range_def using start_le_end by (simp add: upto_rec2)
  finally show t: "timestamp (last ?grp) = end_date" .
  have "last ?grp \<in> set ?grp" by (rule last_in_set [OF ne])
  then have "last ?grp \<in> set (generate_data u g)" by (simp add: room_group_def)
  from table_status [OF this] show "status (last ?grp) = ''off''"
    unfolding t hour_end by simp
qed

text \<open>
  Claim C5. Let the filtered table be the generated table filtered by any date range. The
  room tile summary has one row per distinct room of the filtered table, in ascending
  order of room: as many rows as distinct rooms, at most 9. The row of a room carries,
  over that room's filtered readings (which are never none): the mean of power, the
  status of the last reading, which is the one with the greatest timestamp because the
  readings of a room stand in strictly ascending order of timestamp, and the sums of
  energy_kwh, bill_taka and carbon_gco2. A room's filtered readings are the readings of
  the generated table in the date range whose room is that room, in table order.
\<close>

theorem room_tiles:
  assumes "fdf = filtered_df (generate_data uniform g) s e"
  shows "map rs_room_id (room_summaries fdf) = sorted_list_of_set (room_id ` set fdf)
       \<and> length (room_summaries fdf) = card (room_id ` set fdf)
       \<and> length (room_summaries fdf) \<le> 9
       \<and> (\<forall>row \<in> set (room_summaries fdf).
            (filter (\<lambda>r. room_id r = rs_room_id row) fdf) \<noteq> []
            \<and> rs_power row = sum_list (map power_w (filter (\<lambda>r. room_id r = rs_room_id row) fdf)) / real (length (filter (\<lambda>r. room_id r = rs_room_id row) fdf))
            \<and> sorted_wrt (<) (map timestamp (filter (\<lambda>r. room_id r = rs_room_id row) fdf))
            \<and> (\<forall>r \<in> set (filter (\<lambda>r. room_id r = rs_room_id row) fdf). timestamp r \<le> timestamp (last (filter (\<lambda>r. room_id r = rs_room_id row) fdf)))
            \<and> rs_status row = status (last (filter (\<lambda>r. room_id r = rs_room_id row) fdf))
            \<and> rs_energy_kwh row = sum_list (map energy_kwh (filter (\<lambda>r. room_id r = rs_room_id row) fdf))
            \<and> rs_bill_taka row = sum_list (map bill_taka (filter (\<lambda>r. room_id r = rs_room_id row) fdf))
            \<and> rs_carbon_gco2 row = sum_list (map carbon_gco2 (filter (\<lambda>r. room_id r = rs_room_id row) fdf)))
       \<and> (\<forall>k r. r \<in> set (filter (\<lambda>r. room_id r = k) fdf) \<longleftrightarrow>
            r \<in> set (generate_data uniform g)
            \<and> s \<le> dt_date (timestamp r) \<and> dt_date (timestamp r) \<le> e \<and> room_id r = k)"
proof -
  note base = room_tiles_by_group [OF assms, unfolded room_group_def]
  have sel: "\<forall>k r. r \<in> set (filter (\<lambda>r. room_id r = k) fdf) \<longleftrightarrow>
            r \<in> set (generate_data uniform g)
            \<and> s \<le> dt_date (timestamp r) \<and> dt_date (timestamp r) \<le> e \<and> room_id r = k"
    unfolding assms filtered_df_def by auto
  from base [THEN conjunct1] base [THEN conjunct2, THEN conjunct1]
    base [THEN conjunct2, THEN conjunct2, THEN conjunct1]
    base [THEN conjunct2, THEN conjunct2, THEN conjunct2] sel
  show ?thesis by (intro conjI)
qed

theorem room_tiles_witness:
  "map rs_room_id (room_summaries (filtered_df (generate_data midpoint_sampler 0) (ymd2ord 2025 11 1) (ymd2ord 2025 11 23))) = rooms
   \<and> length (room_summaries (filtered_df (generate_data midpoint_sampler 0) (ymd2ord 2025 11 1) (ymd2ord 2025 11 23))) \<le> 9
   \<and> hd (room_summaries (filtered_df (generate_data midpoint_sampler 0) (ymd2ord 2025 11 1) (ymd2ord 2025 11 23))) \<in> set (room_summaries (filtered_df (generate_data midpoint_sampler 0) (ymd2ord 2025 11 1) (ymd2ord 2025 11 23)))
   \<and> rs_room_id (hd (room_summaries (filtered_df (generate_data midpoint_sampler 0) (ymd2ord 2025 11 1) (ymd2ord 2025 11 23)))) = ''101''
   \<and> rs_status (hd (room_summaries (filtered_df (generate_data midpoint_sampler 0) (ymd2ord 2025 11 1) (ymd2ord 2025 11 23)))) = status (last (filter (\<lambda>r. room_id r = ''101'') (filtered_df (generate_data midpoint_sampler 0) (ymd2ord 2025 11 1) (ymd2ord 2025 11 23))))
   \<and> timestamp (last (filter (\<lambda>r. room_id r = ''101'') (filtered_df (generate_data midpoint_sampler 0) (ymd2ord 2025 11 1) (ymd2ord 2025 11 23)))) = end_date
   \<and> rs_status (hd (room_summaries (filtered_df (generate_data midpoint_sampler 0) (ymd2ord 2025 11 1) (ymd2ord 2025 11 23)))) = ''off''"
proof -
  let ?T = "generate_data midpoint_sampler (0 :: nat)"
  have full: "filtered_df ?T (ymd2ord 2025 11 1) (ymd2ord 2025 11 23) = ?T"
    by (rule filtered_full) simp_all
  note t = room_tiles [OF full [symmetric]]
  from t [THEN conjunct1] have keys: "map rs_room_id (room_summaries ?T) = rooms"
    unfolding table_rooms sorted_rooms .
  note le = t [THEN conjunct2, THEN conjunct2, THEN conjunct1]
  from keys have ne: "room_summaries ?T \<noteq> []"
    by (auto simp: rooms_def)
  then have mem: "hd (room_summaries ?T) \<in> set (room_summaries ?T)"
    by (rule hd_in_set)
  have "rs_room_id (hd (room_summaries ?T)) = hd (map rs_room_id (room_summaries ?T))"
    by (rule hd_map [OF ne, symmetric])
  then have room: "rs_room_id (hd (room_summaries ?T)) = ''101''"
    unfolding keys by (simp add: rooms_def)
  note row = t [THEN conjunct2, THEN conjunct2, THEN conjunct2, THEN conjunct1, THEN bspec,
      OF mem, unfolded room]
  have in_rooms: "''101'' \<in> set rooms" by (simp add: rooms_def)
  note grp = full_window_group_last [OF in_rooms, of midpoint_sampler 0, unfolded room_group_def]
  from row have st: "rs_status (hd (room_summaries ?T)) =
      status (last (filter (\<lambda>r. room_id r = ''101'') ?T))"
    by (elim conjE)
  from st have off: "rs_status (hd (room_summaries ?T)) = ''off''"
    unfolding grp(3) .
  from keys le mem room st grp(1) off show ?thesis
    unfolding full by (intro conjI)
qed

end
